theory Spec2Isabelle
  imports Main
begin

section \<open>JavaScript strings\<close>

text \<open>
  Strings are lists of characters.  The word lists of the risk classifiers, the storage
  prefix and the message fragments tested by the code are all ASCII; \<open>toLowerCase\<close>
  is modelled on the ASCII letters and leaves every other character unchanged.  The two
  characters outside ASCII whose lower case contains an ASCII letter (the Kelvin sign, and
  the dotted capital I, which becomes an i followed by a combining dot) cannot complete
  one of the words: none contains a k, and in each the i is followed by a letter.
\<close>

fun startsWith :: "string \<Rightarrow> string \<Rightarrow> bool" where
  "startsWith s [] = True"
| "startsWith [] (p # ps) = False"
| "startsWith (c # cs) (p # ps) = (c = p \<and> startsWith cs ps)"

fun includes_str :: "string \<Rightarrow> string \<Rightarrow> bool" where
  "includes_str [] w = (w = [])"
| "includes_str (c # cs) w = (startsWith (c # cs) w \<or> includes_str cs w)"

text \<open>\<open>s.replace(pat, rep)\<close> with a string pattern: the first occurrence only.\<close>

fun replace_first :: "string \<Rightarrow> string \<Rightarrow> string \<Rightarrow> string" where
  "replace_first [] pat rep = (if pat = [] then rep else [])"
| "replace_first (c # cs) pat rep =
     (if startsWith (c # cs) pat then rep @ drop (length pat) (c # cs)
      else c # replace_first cs pat rep)"

definition lower_char :: "char \<Rightarrow> char" where
  "lower_char c =
     (case map_of (zip ''ABCDEFGHIJKLMNOPQRSTUVWXYZ'' ''abcdefghijklmnopqrstuvwxyz'') c of
        Some l \<Rightarrow> l
      | None \<Rightarrow> c)"

definition toLowerCase :: "string \<Rightarrow> string" where
  "toLowerCase s = map lower_char s"

definition isWhitespace :: "char \<Rightarrow> bool" where
  "isWhitespace c = (c \<in> set [CHR 0x09, CHR 0x0A, CHR 0x0B, CHR 0x0C, CHR 0x0D, CHR '' ''])"

definition trim :: "string \<Rightarrow> string" where
  "trim s = rev (dropWhile isWhitespace (rev (dropWhile isWhitespace s)))"

section \<open>Risk classification\<close>

datatype riskLevel = Low | Medium | High

text \<open>\<open>determineToolRiskLevel\<close> of the tool registry (tool-registry.ts).\<close>

definition determineToolRiskLevel :: "string \<Rightarrow> riskLevel" where
  "determineToolRiskLevel toolName =
     (let name = toLowerCase toolName in
      if includes_str name ''delete'' \<or> includes_str name ''remove'' \<or> includes_str name ''destroy''
         \<or> includes_str name ''create'' \<or> includes_str name ''update'' \<or> includes_str name ''modify''
         \<or> includes_str name ''merge'' \<or> includes_str name ''close'' \<or> includes_str name ''approve''
      then High
      else if includes_str name ''write'' \<or> includes_str name ''send'' \<or> includes_str name ''execute''
         \<or> includes_str name ''run'' \<or> includes_str name ''upload'' \<or> includes_str name ''post''
         \<or> includes_str name ''put'' \<or> includes_str name ''patch'' \<or> includes_str name ''comment''
         \<or> includes_str name ''assign''
      then Medium
      else Low)"

text \<open>
  \<open>determineRiskLevel\<close> of the permission gate (\<open>useToolPermissions\<close>); it reads only the
  \<open>name\<close> field of the tool call.
\<close>

definition determineRiskLevel :: "string \<Rightarrow> riskLevel" where
  "determineRiskLevel name =
     (if includes_str name ''delete'' \<or> includes_str name ''remove'' \<or> includes_str name ''destroy''
         \<or> includes_str name ''create'' \<or> includes_str name ''update'' \<or> includes_str name ''modify''
      then High
      else if includes_str name ''write'' \<or> includes_str name ''send'' \<or> includes_str name ''execute''
         \<or> includes_str name ''run'' \<or> includes_str name ''upload''
      then Medium
      else Low)"

section \<open>JSON values\<close>

text \<open>
  What \<open>JSON.parse\<close> returns and what the remote protocol carries.  \<open>truthy\<close> is
  JavaScript's boolean coercion; \<open>js_get v k\<close> is the property read \<open>v[k]\<close> on a value
  other than \<open>null\<close>, with \<open>None\<close> for \<open>undefined\<close>.  The code reads only the keys
  \<open>url\<close>, \<open>type\<close>, \<open>description\<close> and tool ids of the form \<open>serviceId:toolName\<close>, none
  of which is a built-in property of an array, a string, a number or a boolean.  An
  object holds each key once, as \<open>JSON.parse\<close> leaves it.
\<close>

datatype json =
    JNull
  | JBool bool
  | JNum int
  | JStr string
  | JArr "json list"
  | JObj "(string \<times> json) list"

fun truthy :: "json \<Rightarrow> bool" where
  "truthy JNull = False"
| "truthy (JBool b) = b"
| "truthy (JNum n) = (n \<noteq> 0)"
| "truthy (JStr s) = (s \<noteq> [])"
| "truthy (JArr xs) = True"
| "truthy (JObj kvs) = True"

fun js_get :: "json \<Rightarrow> string \<Rightarrow> json option" where
  "js_get (JObj kvs) k = map_of kvs k"
| "js_get v k = None"

text \<open>
  A record kept in insertion order, and the definition of a property \<open>k\<close> with value
  \<open>v\<close> on it: a new entry at the end, or a new value for the entry it has.
\<close>

fun assign :: "(string \<times> 'v) list \<Rightarrow> string \<Rightarrow> 'v \<Rightarrow> (string \<times> 'v) list" where
  "assign [] k v = [(k, v)]"
| "assign ((k', v') # kvs) k v =
     (if k' = k then (k, v) # kvs else (k', v') # assign kvs k v)"

text \<open>
  Assignment \<open>obj[k] = v\<close> of an object \<open>v\<close> to a property of an object literal: for
  the key \<open>__proto__\<close> it replaces the prototype of \<open>obj\<close> and adds no property, and an
  inherited property is not among the entries that \<open>z.object\<close> or a JSON serialisation
  reads.
\<close>

definition setProperty :: "(string \<times> 'v) list \<Rightarrow> string \<Rightarrow> 'v \<Rightarrow> (string \<times> 'v) list" where
  "setProperty obj k v = (if k = ''__proto__'' then obj else assign obj k v)"

section \<open>Config Store (storage.ts)\<close>

text \<open>
  \<open>localStorage\<close> is an ordered list of key/value pairs (\<open>localStorage.key(i)\<close> walks it);
  \<open>JSON.parse\<close> is a parameter \<open>parse\<close>, \<open>None\<close> when it throws.  The functions are
  modelled in the browser (\<open>window\<close> is defined).
\<close>

type_synonym storage = "(string \<times> string) list"
type_synonym parser = "string \<Rightarrow> json option"

definition STORAGE_PREFIX :: string where
  "STORAGE_PREFIX = ''mcp-client''"

definition getStorageKey :: "string \<Rightarrow> string" where
  "getStorageKey serviceId = STORAGE_PREFIX @ ''-'' @ serviceId"

definition getItem :: "storage \<Rightarrow> string \<Rightarrow> string option" where
  "getItem st key = map_of st key"

text \<open>\<open>loadServiceConfig\<close>: \<open>JNull\<close> stands for the \<open>null\<close> it returns.\<close>

definition loadServiceConfig :: "parser \<Rightarrow> storage \<Rightarrow> string \<Rightarrow> json" where
  "loadServiceConfig parse st serviceId =
     (case getItem st (getStorageKey serviceId) of
        None \<Rightarrow> JNull
      | Some stored \<Rightarrow>
          if stored \<noteq> [] then (case parse stored of Some v \<Rightarrow> v | None \<Rightarrow> JNull)
          else JNull)"

fun getAllServiceConfigs_loop ::
  "parser \<Rightarrow> storage \<Rightarrow> string list \<Rightarrow> (string \<rightharpoonup> json) \<Rightarrow> (string \<rightharpoonup> json)" where
  "getAllServiceConfigs_loop parse st [] configs = configs"
| "getAllServiceConfigs_loop parse st (key # keys) configs =
     (if key \<noteq> [] \<and> startsWith key STORAGE_PREFIX then
        (let serviceId = replace_first key (STORAGE_PREFIX @ ''-'') [];
             config = loadServiceConfig parse st serviceId
         in if truthy config
            then getAllServiceConfigs_loop parse st keys (configs(serviceId \<mapsto> config))
            else getAllServiceConfigs_loop parse st keys configs)
      else getAllServiceConfigs_loop parse st keys configs)"

definition getAllServiceConfigs :: "parser \<Rightarrow> storage \<Rightarrow> (string \<rightharpoonup> json)" where
  "getAllServiceConfigs parse st = getAllServiceConfigs_loop parse st (map fst st) Map.empty"

text \<open>
  \<open>loadAllServiceConfigs\<close>: the loop stands inside the \<open>try\<close>, so a \<open>JSON.parse\<close> that
  throws abandons it (\<open>None\<close>) and the function returns \<open>{}\<close>.
\<close>

fun loadAllServiceConfigs_loop ::
  "parser \<Rightarrow> storage \<Rightarrow> string list \<Rightarrow> (string \<rightharpoonup> json) \<Rightarrow> (string \<rightharpoonup> json) option" where
  "loadAllServiceConfigs_loop parse st [] configs = Some configs"
| "loadAllServiceConfigs_loop parse st (key # keys) configs =
     (if key \<noteq> [] \<and> startsWith key (STORAGE_PREFIX @ ''-'')
         \<and> \<not> includes_str key ''-tool-selection'' then
        (let serviceId = replace_first key (STORAGE_PREFIX @ ''-'') [] in
         case getItem st key of
           None \<Rightarrow> loadAllServiceConfigs_loop parse st keys configs
         | Some stored \<Rightarrow>
             if stored \<noteq> [] then
               (case parse stored of
                  None \<Rightarrow> None
                | Some v \<Rightarrow> loadAllServiceConfigs_loop parse st keys (configs(serviceId \<mapsto> v)))
             else loadAllServiceConfigs_loop parse st keys configs)
      else loadAllServiceConfigs_loop parse st keys configs)"

definition loadAllServiceConfigs :: "parser \<Rightarrow> storage \<Rightarrow> (string \<rightharpoonup> json)" where
  "loadAllServiceConfigs parse st =
     (case loadAllServiceConfigs_loop parse st (map fst st) Map.empty of
        Some configs \<Rightarrow> configs
      | None \<Rightarrow> Map.empty)"

fun getServiceIds_loop :: "string list \<Rightarrow> string list \<Rightarrow> string list" where
  "getServiceIds_loop [] serviceIds = serviceIds"
| "getServiceIds_loop (key # keys) serviceIds =
     (if key \<noteq> [] \<and> startsWith key STORAGE_PREFIX
      then getServiceIds_loop keys
             (serviceIds @ [replace_first key (STORAGE_PREFIX @ ''-'') []])
      else getServiceIds_loop keys serviceIds)"

definition getServiceIds :: "storage \<Rightarrow> string list" where
  "getServiceIds st = getServiceIds_loop (map fst st) []"

definition TOOL_SELECTION_KEY :: string where
  "TOOL_SELECTION_KEY = STORAGE_PREFIX @ ''-tool-selection''"

definition loadToolSelection :: "parser \<Rightarrow> storage \<Rightarrow> json" where
  "loadToolSelection parse st =
     (case getItem st TOOL_SELECTION_KEY of
        None \<Rightarrow> JObj []
      | Some stored \<Rightarrow>
          if stored \<noteq> [] then (case parse stored of Some v \<Rightarrow> v | None \<Rightarrow> JObj [])
          else JObj [])"

text \<open>
  \<open>selection[toolId] ?? true\<close>, coerced to a boolean by its caller.  The selection is read
  on a value other than \<open>null\<close>; the callers below say what happens on \<open>null\<close>.
\<close>

definition selectedIn :: "json \<Rightarrow> string \<Rightarrow> bool" where
  "selectedIn selection toolId =
     (case js_get selection toolId of
        None \<Rightarrow> True
      | Some JNull \<Rightarrow> True
      | Some v \<Rightarrow> truthy v)"

definition toolIdOf :: "string \<Rightarrow> string \<Rightarrow> string" where
  "toolIdOf serviceId toolName = serviceId @ '':'' @ toolName"

datatype js_error = TypeError


section \<open>Schema Translator (tool-registry.ts)\<close>

text \<open>
  \<open>MCPToolDefinition['inputSchema']\<close>.  Each property schema is \<open>unknown\<close> in the source
  and is a JSON value here.
\<close>

record inputSchema =
  schema_type :: string
  properties :: "(string \<times> json) list option"
  required :: "string list option"

datatype zod =
    ZString
  | ZNumber
  | ZBoolean
  | ZArray zod
  | ZUnknown
  | ZDescribe zod json
  | ZOptional zod
  | ZObject "(string \<times> zod) list"

text \<open>The \<open>switch\<close> on \<open>propSchema.type\<close> and the \<open>describe\<close> that follows every branch.\<close>

definition zodBase :: "json \<Rightarrow> zod" where
  "zodBase propSchema =
     (let t = js_get propSchema ''type'' in
      if t = Some (JStr ''string'') then ZString
      else if t = Some (JStr ''number'') then ZNumber
      else if t = Some (JStr ''boolean'') then ZBoolean
      else if t = Some (JStr ''array'') then ZArray ZUnknown
      else ZUnknown)"

definition zodDescribed :: "json \<Rightarrow> zod" where
  "zodDescribed propSchema =
     (case js_get propSchema ''description'' of
        None \<Rightarrow> zodBase propSchema
      | Some d \<Rightarrow> if truthy d then ZDescribe (zodBase propSchema) d else zodBase propSchema)"

definition zodField :: "string list \<Rightarrow> string \<Rightarrow> json \<Rightarrow> zod" where
  "zodField req key propSchema =
     (if key \<notin> set req then ZOptional (zodDescribed propSchema) else zodDescribed propSchema)"

text \<open>
  The loop over \<open>Object.entries(properties)\<close>, whose entries are the list \<open>properties\<close>
  holds; \<open>propSchema.type\<close> on a property that is \<open>null\<close> throws.
\<close>

fun zodFields_loop ::
  "string list \<Rightarrow> (string \<times> json) list \<Rightarrow> (string \<times> zod) list
     \<Rightarrow> js_error + (string \<times> zod) list" where
  "zodFields_loop req [] zodFields = Inr zodFields"
| "zodFields_loop req ((key, prop) # entries) zodFields =
     (if prop = JNull then Inl TypeError
      else zodFields_loop req entries (setProperty zodFields key (zodField req key prop)))"

definition convertToZodSchema :: "inputSchema option \<Rightarrow> js_error + zod" where
  "convertToZodSchema inputSchema =
     (case inputSchema of
        None \<Rightarrow> Inr (ZObject [])
      | Some sch \<Rightarrow>
          if schema_type sch \<noteq> ''object'' then Inr (ZObject [])
          else
            (let props = (case properties sch of None \<Rightarrow> [] | Some ps \<Rightarrow> ps);
                 req = (case required sch of None \<Rightarrow> [] | Some r \<Rightarrow> r)
             in case zodFields_loop req props [] of
                  Inl e \<Rightarrow> Inl e
                | Inr zodFields \<Rightarrow> Inr (ZObject zodFields)))"

text \<open>A property of the model-facing schema: \<open>{type, items?, description}\<close>.\<close>

record jsonProperty =
  jp_type :: string
  jp_items :: "string option"
  jp_description :: "json option"

record jsonSchema =
  js_type :: string
  js_properties :: "(string \<times> jsonProperty) list"
  js_required :: "string list"

definition jsonProp :: "json \<Rightarrow> jsonProperty" where
  "jsonProp propSchema =
     (let t = js_get propSchema ''type''; d = js_get propSchema ''description'' in
      if t = Some (JStr ''string'')
        then \<lparr>jp_type = ''string'', jp_items = None, jp_description = d\<rparr>
      else if t = Some (JStr ''number'')
        then \<lparr>jp_type = ''number'', jp_items = None, jp_description = d\<rparr>
      else if t = Some (JStr ''boolean'')
        then \<lparr>jp_type = ''boolean'', jp_items = None, jp_description = d\<rparr>
      else if t = Some (JStr ''array'')
        then \<lparr>jp_type = ''array'', jp_items = Some ''string'', jp_description = d\<rparr>
      else \<lparr>jp_type = ''string'', jp_items = None, jp_description = d\<rparr>)"

fun jsonProperties_loop ::
  "(string \<times> json) list \<Rightarrow> (string \<times> jsonProperty) list
     \<Rightarrow> js_error + (string \<times> jsonProperty) list" where
  "jsonProperties_loop [] jsonProperties = Inr jsonProperties"
| "jsonProperties_loop ((key, prop) # entries) jsonProperties =
     (if prop = JNull then Inl TypeError
      else jsonProperties_loop entries (setProperty jsonProperties key (jsonProp prop)))"

definition convertToJsonSchema :: "inputSchema option \<Rightarrow> js_error + jsonSchema" where
  "convertToJsonSchema inputSchema =
     (case inputSchema of
        None \<Rightarrow> Inr \<lparr>js_type = ''object'', js_properties = [], js_required = []\<rparr>
      | Some sch \<Rightarrow>
          if schema_type sch \<noteq> ''object''
          then Inr \<lparr>js_type = ''object'', js_properties = [], js_required = []\<rparr>
          else
            (let props = (case properties sch of None \<Rightarrow> [] | Some ps \<Rightarrow> ps);
                 req = (case required sch of None \<Rightarrow> [] | Some r \<Rightarrow> r)
             in case jsonProperties_loop props [] of
                  Inl e \<Rightarrow> Inl e
                | Inr jsonProperties \<Rightarrow>
                    Inr \<lparr>js_type = ''object'', js_properties = jsonProperties,
                         js_required = req\<rparr>))"

section \<open>Remote Capability Client (actions/mcp.ts)\<close>

text \<open>
  Every \<open>new MCPServerClient\<close> gets a fresh number; the store \<open>isConnected\<close> holds the
  flag of each client object and \<open>clientPool\<close> is the module-level map.  The \<open>trace\<close>
  records the calls of \<open>connect\<close> and \<open>disconnect\<close>, the protocol operations that reach
  the SDK, and the SDK's \<open>close\<close>.
\<close>

datatype opkind =
    ListTools
  | CallTool string json
  | ListPrompts
  | GetPrompt string json
  | ListResources
  | ReadResource string

datatype event =
    EvConnect nat
  | EvOperation nat opkind
  | EvDisconnect nat
  | EvSdkClose nat

record world =
  nextClient :: nat
  isConnected :: "nat \<Rightarrow> bool"
  clientPool :: "string \<rightharpoonup> nat"
  trace :: "event list"

text \<open>A thrown value: an \<open>Error\<close> with its message, or anything else.\<close>

datatype thrown = Error string | NonError

text \<open>\<open>error instanceof Error ? error.message : dflt\<close>\<close>

fun message_of :: "thrown \<Rightarrow> string \<Rightarrow> string" where
  "message_of (Error m) dflt = m"
| "message_of NonError dflt = dflt"

text \<open>
  What the network does during one server action: whether \<open>connect\<close> (building the
  transport, then the SDK's \<open>connect\<close>) throws, and whether the SDK's \<open>close\<close> throws.
  The outcome of the protocol operation itself is a separate argument \<open>sdk\<close>, whose
  payload type depends on the operation.
\<close>

record net =
  connectThrows :: "thrown option"
  closeThrows :: bool

definition emit :: "event \<Rightarrow> world \<Rightarrow> world" where
  "emit e w = w\<lparr>trace := trace w @ [e]\<rparr>"

definition newClient :: "world \<Rightarrow> nat \<times> world" where
  "newClient w =
     (nextClient w,
      w\<lparr>nextClient := Suc (nextClient w), isConnected := (isConnected w)(nextClient w := False)\<rparr>)"

definition connect :: "nat \<Rightarrow> thrown option \<Rightarrow> world \<Rightarrow> (thrown + unit) \<times> world" where
  "connect c outcome w =
     (case outcome of
        None \<Rightarrow> (Inr (), (emit (EvConnect c) w)\<lparr>isConnected := (isConnected w)(c := True)\<rparr>)
      | Some e \<Rightarrow>
          (Inl (Error (''MCP connection failed: '' @ message_of e ''Unknown error'')),
           emit (EvConnect c) w))"

definition disconnect :: "nat \<Rightarrow> bool \<Rightarrow> world \<Rightarrow> world" where
  "disconnect c closeFails w =
     (let w1 = emit (EvDisconnect c) w in
      if isConnected w1 c then
        (let w2 = emit (EvSdkClose c) w1 in
         if closeFails then w2 else w2\<lparr>isConnected := (isConnected w2)(c := False)\<rparr>)
      else w1)"

text \<open>
  The six methods \<open>listTools\<close>, \<open>callTool\<close>, \<open>listPrompts\<close>, \<open>getPrompt\<close>,
  \<open>listResources\<close> and \<open>readResource\<close> share one shape: \<open>ensureConnected\<close>, then the
  SDK call inside a \<open>try\<close> whose \<open>catch\<close> rethrows with a prefixed message.
\<close>

definition clientMethod ::
  "nat \<Rightarrow> opkind \<Rightarrow> string \<Rightarrow> (thrown + 'r) \<Rightarrow> world \<Rightarrow> (thrown + 'r) \<times> world" where
  "clientMethod c kind prefix sdk w =
     (if \<not> isConnected w c
      then (Inl (Error ''MCP Client is not connected. Call connect() first.''), w)
      else
        (case sdk of
           Inl e \<Rightarrow> (Inl (Error (prefix @ message_of e ''Unknown error'')), emit (EvOperation c kind) w)
         | Inr r \<Rightarrow> (Inr r, emit (EvOperation c kind) w)))"

text \<open>
  The result objects \<open>{success: true, ...}\<close> and \<open>{success: false, error}\<close>.  The three
  long messages of \<open>testMCPConnection\<close> are constructors of their own.
\<close>

datatype action_error =
    Message string
  | CannotReachServer string
  | CorsRestriction
  | NetworkFailure string

datatype 'r action_result = Success 'r | Failure action_error

text \<open>
  The test \<open>!config.url || config.url.trim() === ''\<close>: \<open>Inr None\<close> when it holds,
  \<open>Inr (Some url)\<close> when it does not, \<open>Inl\<close> when evaluating it throws (\<open>config\<close> is
  \<open>null\<close>, or \<open>url\<close> is truthy and has no \<open>trim\<close>).
\<close>

definition urlPresent :: "json \<Rightarrow> thrown + string option" where
  "urlPresent config =
     (if config = JNull then Inl (Error ''Cannot read properties of null'')
      else
        (case js_get config ''url'' of
           None \<Rightarrow> Inr None
         | Some (JStr u) \<Rightarrow> if u = [] \<or> trim u = [] then Inr None else Inr (Some u)
         | Some v \<Rightarrow>
             if truthy v then Inl (Error ''config.url.trim is not a function'') else Inr None))"

text \<open>The \<open>finally\<close> block: disconnect when a client was created.\<close>

definition finally_disconnect :: "nat option \<Rightarrow> bool \<Rightarrow> world \<Rightarrow> world" where
  "finally_disconnect client closeFails w =
     (case client of None \<Rightarrow> w | Some c \<Rightarrow> disconnect c closeFails w)"





text \<open>\<open>callMCPTool\<close> of actions/mcp.ts: the pooled connection, when there is one.\<close>

definition callMCPTool ::
  "string \<Rightarrow> string \<Rightarrow> json \<Rightarrow> (thrown + 'r) \<Rightarrow> world \<Rightarrow> 'r action_result \<times> world" where
  "callMCPTool serviceId toolName arguments sdk w =
     (case clientPool w serviceId of
        Some clientFromPool \<Rightarrow>
          (let (r, w1) = clientMethod clientFromPool (CallTool toolName arguments)
                           ''Failed to call tool: '' sdk w
           in (case r of
                 Inl e \<Rightarrow> Failure (Message (message_of e ''Tool call failed''))
               | Inr res \<Rightarrow> Success res,
               w1))
      | None \<Rightarrow>
          (Failure (Message (''No active connection for service '' @ serviceId
             @ ''. Please test connection first or use the stateless callMCPToolWithConfig function.'')),
           w))"

definition callMCPToolWithConfig ::
  "json \<Rightarrow> string \<Rightarrow> json \<Rightarrow> net \<Rightarrow> (thrown + 'r) \<Rightarrow> world \<Rightarrow> 'r action_result \<times> world" where
  "callMCPToolWithConfig config toolName arguments nt sdk w =
     (let (c, w1) = newClient w;
          (r1, w2) = connect c (connectThrows nt) w1
      in case r1 of
           Inl e \<Rightarrow>
             (Failure (Message (message_of e ''Tool call failed'')),
              finally_disconnect (Some c) (closeThrows nt) w2)
         | Inr u1 \<Rightarrow>
             (let (r2, w3) = clientMethod c (CallTool toolName arguments)
                               ''Failed to call tool: '' sdk w2
              in (case r2 of
                    Inl e \<Rightarrow> Failure (Message (message_of e ''Tool call failed''))
                  | Inr res \<Rightarrow> Success res,
                  finally_disconnect (Some c) (closeThrows nt) w3)))"

text \<open>
  \<open>listMCPTools\<close>, \<open>listMCPPrompts\<close> and \<open>listMCPResources\<close> take an optional config:
  with a (truthy) config they open a fresh connection, without one they fall back to the
  pool.  In the first branch the config is present, so \<open>the config\<close> is defined.
\<close>

definition listMCPTools ::
  "(string \<Rightarrow> bool) \<Rightarrow> string \<Rightarrow> json option \<Rightarrow> net \<Rightarrow> (thrown + 'r) \<Rightarrow> world
     \<Rightarrow> 'r action_result \<times> world" where
  "listMCPTools validURL serviceId config nt sdk w =
     (if (case config of None \<Rightarrow> False | Some cfg \<Rightarrow> truthy cfg) then
        (case urlPresent (the config) of
           Inl e \<Rightarrow> (Failure (Message (message_of e ''List tools failed'')), w)
         | Inr None \<Rightarrow> (Failure (Message ''URL is required for HTTP transport''), w)
         | Inr (Some u) \<Rightarrow>
               if \<not> validURL u then (Failure (Message (''Invalid URL format: '' @ u)), w)
               else
                 (let (c, w1) = newClient w;
                      (r1, w2) = connect c (connectThrows nt) w1
                  in case r1 of
                       Inl e \<Rightarrow>
                         (Failure (Message (message_of e ''List tools failed'')),
                          finally_disconnect (Some c) (closeThrows nt) w2)
                     | Inr u1 \<Rightarrow>
                         (let (r2, w3) = clientMethod c ListTools ''Failed to list tools: '' sdk w2 in
                          (case r2 of
                             Inl e \<Rightarrow> Failure (Message (message_of e ''List tools failed''))
                           | Inr tools \<Rightarrow> Success tools,
                           finally_disconnect (Some c) (closeThrows nt) w3))))
      else
        (case clientPool w serviceId of
           None \<Rightarrow>
             (Failure (Message
                (''No configuration provided and no active connection for service '' @ serviceId)),
              w)
         | Some poolClient \<Rightarrow>
             (let (r, w1) = clientMethod poolClient ListTools ''Failed to list tools: '' sdk w in
              (case r of
                 Inl e \<Rightarrow> Failure (Message (message_of e ''List tools failed''))
               | Inr tools \<Rightarrow> Success tools,
               w1))))"

text \<open>The two actions that were not converted: they only return an error.\<close>

definition getMCPPrompt :: "string \<Rightarrow> string \<Rightarrow> json \<Rightarrow> world \<Rightarrow> 'r action_result \<times> world" where
  "getMCPPrompt serviceId promptName arguments w =
     (Failure (Message
        ''getMCPPrompt not yet converted to stateless. Use getMCPPromptWithConfig instead.''),
      w)"

definition readMCPResource :: "string \<Rightarrow> string \<Rightarrow> world \<Rightarrow> 'r action_result \<times> world" where
  "readMCPResource serviceId uri w =
     (Failure (Message
        ''readMCPResource not yet converted to stateless. Use readMCPResourceWithConfig instead.''),
      w)"

definition getMCPPromptWithConfig ::
  "json \<Rightarrow> string \<Rightarrow> json \<Rightarrow> net \<Rightarrow> (thrown + 'r) \<Rightarrow> world \<Rightarrow> 'r action_result \<times> world" where
  "getMCPPromptWithConfig config promptName arguments nt sdk w =
     (let (c, w1) = newClient w;
          (r1, w2) = connect c (connectThrows nt) w1
      in case r1 of
           Inl e \<Rightarrow>
             (Failure (Message (message_of e ''Get prompt failed'')),
              finally_disconnect (Some c) (closeThrows nt) w2)
         | Inr u1 \<Rightarrow>
             (let (r2, w3) = clientMethod c (GetPrompt promptName arguments) ''Failed to get prompt: '' sdk w2 in
              (case r2 of
                 Inl e \<Rightarrow> Failure (Message (message_of e ''Get prompt failed''))
               | Inr res \<Rightarrow> Success res,
               finally_disconnect (Some c) (closeThrows nt) w3)))"

definition listMCPPrompts ::
  "string \<Rightarrow> json option \<Rightarrow> net \<Rightarrow> (thrown + 'r) \<Rightarrow> world
     \<Rightarrow> 'r action_result \<times> world" where
  "listMCPPrompts serviceId config nt sdk w =
     (if (case config of None \<Rightarrow> False | Some cfg \<Rightarrow> truthy cfg) then
        (case urlPresent (the config) of
           Inl e \<Rightarrow> (Failure (Message (message_of e ''List prompts failed'')), w)
         | Inr None \<Rightarrow> (Failure (Message ''URL is required for HTTP transport''), w)
         | Inr (Some u) \<Rightarrow>
               (let (c, w1) = newClient w;
                      (r1, w2) = connect c (connectThrows nt) w1
                  in case r1 of
                       Inl e \<Rightarrow>
                         (Failure (Message (message_of e ''List prompts failed'')),
                          finally_disconnect (Some c) (closeThrows nt) w2)
                     | Inr u1 \<Rightarrow>
                         (let (r2, w3) = clientMethod c ListPrompts ''Failed to list prompts: '' sdk w2 in
                          (case r2 of
                             Inl e \<Rightarrow> Failure (Message (message_of e ''List prompts failed''))
                           | Inr prompts \<Rightarrow> Success prompts,
                           finally_disconnect (Some c) (closeThrows nt) w3))))
      else
        (case clientPool w serviceId of
           None \<Rightarrow>
             (Failure (Message
                (''No configuration provided and no active connection for service '' @ serviceId)),
              w)
         | Some poolClient \<Rightarrow>
             (let (r, w1) = clientMethod poolClient ListPrompts ''Failed to list prompts: '' sdk w in
              (case r of
                 Inl e \<Rightarrow> Failure (Message (message_of e ''List prompts failed''))
               | Inr prompts \<Rightarrow> Success prompts,
               w1))))"

definition readMCPResourceWithConfig ::
  "json \<Rightarrow> string \<Rightarrow> net \<Rightarrow> (thrown + 'r) \<Rightarrow> world \<Rightarrow> 'r action_result \<times> world" where
  "readMCPResourceWithConfig config uri nt sdk w =
     (let (c, w1) = newClient w;
          (r1, w2) = connect c (connectThrows nt) w1
      in case r1 of
           Inl e \<Rightarrow>
             (Failure (Message (message_of e ''Read resource failed'')),
              finally_disconnect (Some c) (closeThrows nt) w2)
         | Inr u1 \<Rightarrow>
             (let (r2, w3) = clientMethod c (ReadResource uri) ''Failed to read resource: '' sdk w2 in
              (case r2 of
                 Inl e \<Rightarrow> Failure (Message (message_of e ''Read resource failed''))
               | Inr res \<Rightarrow> Success res,
               finally_disconnect (Some c) (closeThrows nt) w3)))"

definition listMCPResources ::
  "string \<Rightarrow> json option \<Rightarrow> net \<Rightarrow> (thrown + 'r) \<Rightarrow> world
     \<Rightarrow> 'r action_result \<times> world" where
  "listMCPResources serviceId config nt sdk w =
     (if (case config of None \<Rightarrow> False | Some cfg \<Rightarrow> truthy cfg) then
        (case urlPresent (the config) of
           Inl e \<Rightarrow> (Failure (Message (message_of e ''List resources failed'')), w)
         | Inr None \<Rightarrow> (Failure (Message ''URL is required for HTTP transport''), w)
         | Inr (Some u) \<Rightarrow>
               (let (c, w1) = newClient w;
                      (r1, w2) = connect c (connectThrows nt) w1
                  in case r1 of
                       Inl e \<Rightarrow>
                         (Failure (Message (message_of e ''List resources failed'')),
                          finally_disconnect (Some c) (closeThrows nt) w2)
                     | Inr u1 \<Rightarrow>
                         (let (r2, w3) = clientMethod c ListResources ''Failed to list resources: '' sdk w2 in
                          (case r2 of
                             Inl e \<Rightarrow> Failure (Message (message_of e ''List resources failed''))
                           | Inr resources \<Rightarrow> Success resources,
                           finally_disconnect (Some c) (closeThrows nt) w3))))
      else
        (case clientPool w serviceId of
           None \<Rightarrow>
             (Failure (Message
                (''No configuration provided and no active connection for service '' @ serviceId)),
              w)
         | Some poolClient \<Rightarrow>
             (let (r, w1) = clientMethod poolClient ListResources ''Failed to list resources: '' sdk w in
              (case r of
                 Inl e \<Rightarrow> Failure (Message (message_of e ''List resources failed''))
               | Inr resources \<Rightarrow> Success resources,
               w1))))"

section \<open>Client-side wrapper (mcp-client-hooks.ts)\<close>

text \<open>\<open>listMCPTools(serviceId)\<close> of the hooks module: load the config, then call the action.\<close>

definition hooks_listMCPTools ::
  "parser \<Rightarrow> (string \<Rightarrow> bool) \<Rightarrow> storage \<Rightarrow> string \<Rightarrow> net \<Rightarrow> (thrown + 'r) \<Rightarrow> world
     \<Rightarrow> 'r action_result \<times> world" where
  "hooks_listMCPTools parse validURL st serviceId nt sdk w =
     (let config = loadServiceConfig parse st serviceId in
      if \<not> truthy config
      then (Failure (Message (''No configuration found for service '' @ serviceId
              @ ''. Please configure the service first.'')), w)
      else listMCPTools validURL serviceId (Some config) nt sdk w)"

section \<open>Tool Registry (tool-registry.ts)\<close>

text \<open>A tool as the provider lists it, read through the cast of \<open>refreshTools\<close>.\<close>

record rawTool =
  t_name :: string
  t_description :: "string option"
  t_inputSchema :: "inputSchema option"

record MCPToolDefinition =
  mcp_name :: string
  mcp_description :: "string option"
  mcp_serviceId :: string
  mcp_inputSchema :: "inputSchema option"

text \<open>
  \<open>AISDKTool\<close> without its \<open>execute\<close> closure, which is never sent to the model and is
  not what \<open>onToolCall\<close> runs.
\<close>

record AISDKTool =
  ai_name :: string
  ai_description :: string
  ai_parameters :: zod
  ai_jsonSchema :: jsonSchema
  ai_serviceId :: string
  ai_riskLevel :: riskLevel

definition convertToAISDKTool :: "MCPToolDefinition \<Rightarrow> js_error + AISDKTool" where
  "convertToAISDKTool mcpTool =
     (case convertToZodSchema (mcp_inputSchema mcpTool) of
        Inl e \<Rightarrow> Inl e
      | Inr params \<Rightarrow>
          (case convertToJsonSchema (mcp_inputSchema mcpTool) of
             Inl e \<Rightarrow> Inl e
           | Inr jsch \<Rightarrow>
               Inr \<lparr>ai_name = mcp_name mcpTool,
                    ai_description =
                      (case mcp_description mcpTool of
                         None \<Rightarrow> ''MCP tool''
                       | Some d \<Rightarrow> if d = [] then ''MCP tool'' else d),
                    ai_parameters = params,
                    ai_jsonSchema = jsch,
                    ai_serviceId = mcp_serviceId mcpTool,
                    ai_riskLevel = determineToolRiskLevel (mcp_name mcpTool)\<rparr>))"

text \<open>\<open>.map(tool => convertToAISDKTool(tool))\<close>: the first conversion that throws ends it.\<close>

fun convertAll :: "MCPToolDefinition list \<Rightarrow> js_error + AISDKTool list" where
  "convertAll [] = Inr []"
| "convertAll (t # ts) =
     (case convertToAISDKTool t of
        Inl e \<Rightarrow> Inl e
      | Inr a \<Rightarrow> (case convertAll ts of Inl e \<Rightarrow> Inl e | Inr as \<Rightarrow> Inr (a # as)))"

record ToolRegistryState =
  tools :: "MCPToolDefinition list"
  aiTools :: "AISDKTool list"
  isLoading :: bool
  error :: "js_error option"

text \<open>
  The loop over the service ids.  \<open>remote serviceId\<close> is what the network does when that
  service is asked for its tools.
\<close>

fun refreshTools_loop ::
  "parser \<Rightarrow> (string \<Rightarrow> bool) \<Rightarrow> (string \<Rightarrow> net \<times> (thrown + rawTool list)) \<Rightarrow> storage
     \<Rightarrow> string list \<Rightarrow> MCPToolDefinition list \<Rightarrow> world \<Rightarrow> MCPToolDefinition list \<times> world" where
  "refreshTools_loop parse validURL remote st [] allTools w = (allTools, w)"
| "refreshTools_loop parse validURL remote st (serviceId # rest) allTools w =
     (if \<not> truthy (loadServiceConfig parse st serviceId)
      then refreshTools_loop parse validURL remote st rest allTools w
      else
        (case hooks_listMCPTools parse validURL st serviceId
                (fst (remote serviceId)) (snd (remote serviceId)) w of
           (Success ts, w1) \<Rightarrow>
             refreshTools_loop parse validURL remote st rest
               (allTools @ map (\<lambda>t. \<lparr>mcp_name = t_name t, mcp_description = t_description t,
                                     mcp_serviceId = serviceId,
                                     mcp_inputSchema = t_inputSchema t\<rparr>) ts) w1
         | (Failure e, w1) \<Rightarrow> refreshTools_loop parse validURL remote st rest allTools w1))"

text \<open>
  \<open>refreshTools\<close>: enumerate, filter by the selection, convert, publish.  A selection that
  parsed to \<open>null\<close> makes the filter throw on the first tool, and a property schema that
  is \<open>null\<close> makes the conversion throw; both end in the outer \<open>catch\<close>, which keeps the
  previous tool lists and sets \<open>error\<close>.
\<close>

definition refreshTools ::
  "parser \<Rightarrow> (string \<Rightarrow> bool) \<Rightarrow> (string \<Rightarrow> net \<times> (thrown + rawTool list)) \<Rightarrow> storage
     \<Rightarrow> ToolRegistryState \<Rightarrow> world \<Rightarrow> ToolRegistryState \<times> world" where
  "refreshTools parse validURL remote st prev w =
     (let serviceIds = getServiceIds st;
          (allTools, w1) = refreshTools_loop parse validURL remote st serviceIds [] w;
          toolSelection = loadToolSelection parse st
      in if toolSelection = JNull \<and> allTools \<noteq> []
         then (prev\<lparr>isLoading := False, error := Some TypeError\<rparr>, w1)
         else
           (case convertAll
                   (filter (\<lambda>tool. selectedIn toolSelection
                              (toolIdOf (mcp_serviceId tool) (mcp_name tool))) allTools) of
              Inl e \<Rightarrow> (prev\<lparr>isLoading := False, error := Some e\<rparr>, w1)
            | Inr converted \<Rightarrow>
                (prev\<lparr>tools := allTools, aiTools := converted, isLoading := False,
                      error := None\<rparr>, w1)))"

definition getToolByName :: "ToolRegistryState \<Rightarrow> string \<Rightarrow> AISDKTool option" where
  "getToolByName state nm = find (\<lambda>tool. ai_name tool = nm) (aiTools state)"

definition getToolsByService :: "ToolRegistryState \<Rightarrow> string \<Rightarrow> AISDKTool list" where
  "getToolsByService state sid = filter (\<lambda>tool. ai_serviceId tool = sid) (aiTools state)"

section \<open>Summarization (actions/summarize.ts)\<close>

text \<open>
  What the language model does during one \<open>summarizeToolResult\<close>: whether
  \<open>getModelProvider\<close> throws, and what \<open>generateText\<close> does.  The question, the tool name,
  the arguments and the raw result only build the prompt handed to \<open>generateText\<close>.
\<close>

record llm =
  providerThrows :: "thrown option"
  generateText :: "thrown + string"

datatype summary_result = SummaryOk string | SummaryFailed string

definition summarizeToolResult :: "llm \<Rightarrow> summary_result" where
  "summarizeToolResult m =
     (case providerThrows m of
        Some e \<Rightarrow> SummaryFailed (message_of e ''Unknown error during summarization'')
      | None \<Rightarrow>
          (case generateText m of
             Inl e \<Rightarrow> SummaryFailed (message_of e ''Unknown error during summarization'')
           | Inr txt \<Rightarrow> SummaryOk (trim txt)))"

section \<open>Invocation Coordinator (use-chat.ts)\<close>

definition MAX_TOOLS_PER_REQUEST :: nat where
  "MAX_TOOLS_PER_REQUEST = 30"

text \<open>An entry of \<open>toolsForAI\<close>, the tool list sent with every chat request.\<close>

record toolForAI =
  tfa_name :: string
  tfa_description :: string
  tfa_parameters :: jsonSchema
  tfa_serviceId :: string

definition toolsForAI :: "AISDKTool list \<Rightarrow> toolForAI list" where
  "toolsForAI ts =
     map (\<lambda>tool. \<lparr>tfa_name = ai_name tool, tfa_description = ai_description tool,
                   tfa_parameters = ai_jsonSchema tool, tfa_serviceId = ai_serviceId tool\<rparr>) ts"

text \<open>
  What \<open>onToolCall\<close> returns to the conversation: \<open>{error}\<close>, \<open>{result}\<close>, or
  \<open>{result, summary, rawResult}\<close>.
\<close>

datatype toolCallResult =
    ErrorResult action_error
  | ResultOnly "json list"
  | ResultWithSummary "json list" string "json list"

text \<open>
  \<open>onToolCall\<close>.  The remote answer \<open>sdk\<close> is the normalised \<open>{content, isError}\<close>.  Both
  server actions catch everything they throw, so the \<open>catch\<close> of \<open>onToolCall\<close> has no
  branch here.
\<close>

definition onToolCall ::
  "AISDKTool list \<Rightarrow> (string \<rightharpoonup> json) \<Rightarrow> string \<Rightarrow> json \<Rightarrow> net
     \<Rightarrow> (thrown + json list \<times> bool) \<Rightarrow> llm \<Rightarrow> world \<Rightarrow> toolCallResult \<times> world" where
  "onToolCall ts serviceConfigs toolName args nt sdk m w =
     (case find (\<lambda>t. ai_name t = toolName) ts of
        None \<Rightarrow> (ErrorResult (Message ''Tool not found''), w)
      | Some tool \<Rightarrow>
          (case serviceConfigs (ai_serviceId tool) of
             None \<Rightarrow> (ErrorResult (Message ''Service configuration not found''), w)
           | Some serviceConfig \<Rightarrow>
               if \<not> truthy serviceConfig
               then (ErrorResult (Message ''Service configuration not found''), w)
               else
                 (case callMCPToolWithConfig serviceConfig toolName args nt sdk w of
                    (Success res, w1) \<Rightarrow>
                      (case summarizeToolResult m of
                         SummaryOk summary \<Rightarrow>
                           if summary \<noteq> []
                           then (ResultWithSummary (fst res) summary (fst res), w1)
                           else (ResultOnly (fst res), w1)
                       | SummaryFailed e \<Rightarrow> (ResultOnly (fst res), w1))
                  | (Failure e, w1) \<Rightarrow> (ErrorResult e, w1))))"

text \<open>Decimal digits of a number, for the template string of the warning.\<close>

fun showNat :: "nat \<Rightarrow> string" where
  "showNat n =
     (if n < 10 then [''0123456789'' ! n]
      else showNat (n div 10) @ [''0123456789'' ! (n mod 10)])"

datatype submitOutcome =
    ToastWarning string
  | ChatSubmit "toolForAI list"

text \<open>
  \<open>handleSubmit\<close>: either the warning toast and nothing else, or \<open>chat.handleSubmit\<close>,
  whose request body carries \<open>toolsForAI\<close>.
\<close>

definition handleSubmit :: "AISDKTool list \<Rightarrow> submitOutcome" where
  "handleSubmit ts =
     (if length (toolsForAI ts) > MAX_TOOLS_PER_REQUEST
      then ToastWarning (''Tool limit exceeded: '' @ showNat (length (toolsForAI ts))
             @ '' tools available, but only '' @ showNat MAX_TOOLS_PER_REQUEST
             @ '' tools can be used per request. Please disable some tools in Available Actions.'')
      else ChatSubmit (toolsForAI ts))"

section \<open>Chat endpoint (api/chat/route.ts)\<close>

text \<open>\<open>Object.fromEntries\<close>: a later entry overwrites an earlier one with the same key.\<close>

definition fromEntries :: "(string \<times> 'v) list \<Rightarrow> (string \<times> 'v) list" where
  "fromEntries entries = foldl (\<lambda>obj (k, v). assign obj k v) [] entries"

text \<open>
  The tool table handed to \<open>streamText\<close>.  \<open>toZod\<close> stands for \<open>jsonSchemaToZod\<close>, which
  does not look at the name.
\<close>

definition route_aiTools ::
  "(jsonSchema \<Rightarrow> 'z) \<Rightarrow> toolForAI list \<Rightarrow> (string \<times> string \<times> 'z) list" where
  "route_aiTools toZod ts =
     fromEntries (map (\<lambda>tool. (tfa_name tool, tfa_description tool, toZod (tfa_parameters tool))) ts)"

section \<open>Permission Gate (useToolPermissions)\<close>

record ToolCall =
  tc_id :: string
  tc_name :: string
  tc_arguments :: json
  tc_serviceId :: string

text \<open>
  A pending request.  Its \<open>onApprove\<close> and \<open>onDeny\<close> closures are the functions
  \<open>onApprove\<close> and \<open>onDeny\<close> below, applied to the request's tool call.
\<close>

record ToolPermissionRequest =
  toolCall :: ToolCall
  toolDescription :: "string option"
  riskLevel :: riskLevel

record PermissionState =
  pendingRequests :: "ToolPermissionRequest list"
  approvedTools :: "string set"
  deniedTools :: "string set"
  sessionPermissions :: "string \<rightharpoonup> bool"

definition initialPermissionState :: PermissionState where
  "initialPermissionState =
     \<lparr>pendingRequests = [], approvedTools = {}, deniedTools = {},
      sessionPermissions = Map.empty\<rparr>"

text \<open>
  \<open>requestPermission\<close>: the value the promise resolves with at once, or \<open>None\<close> while it
  stays pending, and the state after the call.  Each call reads the state as last
  committed.
\<close>

definition requestPermission ::
  "ToolCall \<Rightarrow> string option \<Rightarrow> PermissionState \<Rightarrow> bool option \<times> PermissionState" where
  "requestPermission tc descr st =
     (case sessionPermissions st (tc_name tc) of
        Some sessionPermission \<Rightarrow> (Some sessionPermission, st)
      | None \<Rightarrow>
          if tc_name tc \<in> approvedTools st
          then (Some True,
                st\<lparr>sessionPermissions := (sessionPermissions st)(tc_name tc \<mapsto> True)\<rparr>)
          else if tc_name tc \<in> deniedTools st
          then (Some False,
                st\<lparr>sessionPermissions := (sessionPermissions st)(tc_name tc \<mapsto> False)\<rparr>)
          else (None,
                st\<lparr>pendingRequests := pendingRequests st @
                     [\<lparr>toolCall = tc, toolDescription = descr,
                       riskLevel = determineRiskLevel (tc_name tc)\<rparr>]\<rparr>))"

definition onApprove :: "ToolCall \<Rightarrow> PermissionState \<Rightarrow> PermissionState" where
  "onApprove tc st =
     st\<lparr>pendingRequests := filter (\<lambda>r. tc_id (toolCall r) \<noteq> tc_id tc) (pendingRequests st),
        sessionPermissions := (sessionPermissions st)(tc_name tc \<mapsto> True)\<rparr>"

definition onDeny :: "ToolCall \<Rightarrow> PermissionState \<Rightarrow> PermissionState" where
  "onDeny tc st =
     st\<lparr>pendingRequests := filter (\<lambda>r. tc_id (toolCall r) \<noteq> tc_id tc) (pendingRequests st),
        sessionPermissions := (sessionPermissions st)(tc_name tc \<mapsto> False)\<rparr>"

definition setAutoApprove :: "string \<Rightarrow> bool \<Rightarrow> PermissionState \<Rightarrow> PermissionState" where
  "setAutoApprove toolName approved st =
     (if approved
      then st\<lparr>approvedTools := insert toolName (approvedTools st),
              deniedTools := deniedTools st - {toolName}\<rparr>
      else st\<lparr>approvedTools := approvedTools st - {toolName},
              deniedTools := insert toolName (deniedTools st)\<rparr>)"

definition clearSessionPermissions :: "PermissionState \<Rightarrow> PermissionState" where
  "clearSessionPermissions st = st\<lparr>sessionPermissions := Map.empty, pendingRequests := []\<rparr>"

text \<open>What can happen to the gate during a session, and a run of such events.\<close>

datatype gateEvent =
    Request ToolCall "string option"
  | Approve ToolCall
  | Deny ToolCall
  | SetAuto string bool
  | Clear

fun gateStep :: "PermissionState \<Rightarrow> gateEvent \<Rightarrow> PermissionState" where
  "gateStep st (Request tc descr) = snd (requestPermission tc descr st)"
| "gateStep st (Approve tc) = onApprove tc st"
| "gateStep st (Deny tc) = onDeny tc st"
| "gateStep st (SetAuto toolName approved) = setAutoApprove toolName approved st"
| "gateStep st Clear = clearSessionPermissions st"

definition gateRun :: "PermissionState \<Rightarrow> gateEvent list \<Rightarrow> PermissionState" where
  "gateRun st evs = foldl gateStep st evs"

section \<open>The Risk Classifier as the specification words it\<close>

definition highWords :: "string list" where
  "highWords = [''delete'', ''remove'', ''destroy'', ''create'', ''update'', ''modify'',
                ''merge'', ''close'', ''approve'']"

definition mediumWords :: "string list" where
  "mediumWords = [''write'', ''send'', ''execute'', ''run'', ''upload'', ''post'', ''put'',
                  ''patch'', ''comment'', ''assign'']"

definition classify :: "string \<Rightarrow> riskLevel" where
  "classify toolName =
     (if list_ex (includes_str (toLowerCase toolName)) highWords then High
      else if list_ex (includes_str (toLowerCase toolName)) mediumWords then Medium
      else Low)"

section \<open>Notions used in the statements\<close>






text \<open>One action on a fresh client \<open>c\<close>: the pool is untouched, and the trace grows by
  \<open>connect\<close>, the one operation when \<open>connect\<close> succeeded, and \<open>disconnect\<close> (which
  reaches the SDK's \<open>close\<close> only when the client is connected); the client stays
  connected only if that \<open>close\<close> threw.\<close>

definition freshRoundTrip :: "opkind \<Rightarrow> net \<Rightarrow> world \<Rightarrow> world \<Rightarrow> bool" where
  "freshRoundTrip kind nt w w' =
     (let c = nextClient w in
      clientPool w' = clientPool w
      \<and> nextClient w' = Suc c
      \<and> trace w' = trace w @
            (if connectThrows nt = None
             then [EvConnect c, EvOperation c kind, EvDisconnect c, EvSdkClose c]
             else [EvConnect c, EvDisconnect c])
      \<and> (isConnected w' c \<longleftrightarrow> connectThrows nt = None \<and> closeThrows nt))"



text \<open>The action returned \<open>success: false\<close>.\<close>

definition isFailure :: "'r action_result \<Rightarrow> bool" where
  "isFailure res = (case res of Failure e \<Rightarrow> True | Success r \<Rightarrow> False)"

text \<open>
  One operation on the pooled client \<open>c\<close>: no client is created, connected or
  disconnected, the pool is as it was, and the trace grows by that one operation.
\<close>

definition pooledOperation :: "opkind \<Rightarrow> nat \<Rightarrow> world \<Rightarrow> world \<Rightarrow> bool" where
  "pooledOperation kind c w w' =
     (clientPool w' = clientPool w
      \<and> nextClient w' = nextClient w
      \<and> isConnected w' = isConnected w
      \<and> trace w' = trace w @ [EvOperation c kind])"




section \<open>Concrete inputs\<close>

text \<open>
  The scenarios of the specification as concrete values: a GitHub and a GitLab
  service, their stored configs, a stored selection that disables \<open>github:delete_repo\<close>,
  and a parser that knows these three texts.
\<close>

definition demoTool :: AISDKTool where
  "demoTool =
     \<lparr>ai_name = ''get_repo'', ai_description = ''MCP tool'', ai_parameters = ZObject [],
      ai_jsonSchema = \<lparr>js_type = ''object'', js_properties = [], js_required = []\<rparr>,
      ai_serviceId = ''github'', ai_riskLevel = Low\<rparr>"

definition initialWorld :: world where
  "initialWorld = \<lparr>nextClient = 0, isConnected = (\<lambda>c. False), clientPool = Map.empty, trace = []\<rparr>"

definition githubConfig :: json where
  "githubConfig = JObj [(''url'', JStr ''https://mcp.example/github'')]"

definition okNet :: net where
  "okNet = \<lparr>connectThrows = None, closeThrows = False\<rparr>"

definition failingLlm :: llm where
  "failingLlm = \<lparr>providerThrows = None, generateText = Inl (Error ''rate limit'')\<rparr>"

definition okLlm :: llm where
  "okLlm = \<lparr>providerThrows = None, generateText = Inr ''The repository was deleted. ''\<rparr>"

definition deleteRepoTool :: AISDKTool where
  "deleteRepoTool =
     \<lparr>ai_name = ''delete_repo'', ai_description = ''Delete a repository'',
      ai_parameters = ZObject [],
      ai_jsonSchema = \<lparr>js_type = ''object'', js_properties = [], js_required = []\<rparr>,
      ai_serviceId = ''github'', ai_riskLevel = High\<rparr>"

definition deleteRepoCall :: ToolCall where
  "deleteRepoCall =
     \<lparr>tc_id = ''call-1'', tc_name = ''delete_repo'',
      tc_arguments = JObj [(''repo'', JStr ''acme/site'')], tc_serviceId = ''github''\<rparr>"

definition deleteRepoCall2 :: ToolCall where
  "deleteRepoCall2 =
     \<lparr>tc_id = ''call-2'', tc_name = ''delete_repo'',
      tc_arguments = JObj [(''repo'', JStr ''acme/docs'')], tc_serviceId = ''github''\<rparr>"

definition getRepoCall :: ToolCall where
  "getRepoCall =
     \<lparr>tc_id = ''call-3'', tc_name = ''get_repo'',
      tc_arguments = JObj [], tc_serviceId = ''github''\<rparr>"

definition pendingDelete :: PermissionState where
  "pendingDelete = snd (requestPermission deleteRepoCall None initialPermissionState)"

definition sessionEvents :: "gateEvent list" where
  "sessionEvents = [Request getRepoCall None, Deny getRepoCall, SetAuto ''delete_repo'' False]"

definition githubConfigText :: string where
  \<open>githubConfigText = ''{"url":"https://mcp.example/github"}''\<close>

definition gitlabConfigText :: string where
  \<open>gitlabConfigText = ''{"url":"https://mcp.example/gitlab"}''\<close>

definition gitlabConfig :: json where
  "gitlabConfig = JObj [(''url'', JStr ''https://mcp.example/gitlab'')]"

definition selectionText :: string where
  \<open>selectionText = ''{"github:delete_repo":false}''\<close>

definition selectionJson :: json where
  "selectionJson = JObj [(''github:delete_repo'', JBool False)]"

definition parseFixture :: parser where
  "parseFixture =
     map_of [(githubConfigText, githubConfig), (gitlabConfigText, gitlabConfig),
             (selectionText, selectionJson)]"

definition storageB :: storage where
  "storageB = [(''mcp-client-github'', githubConfigText),
               (''mcp-client-tool-selection'', selectionText)]"

definition rawDeleteRepo :: rawTool where
  "rawDeleteRepo = \<lparr>t_name = ''delete_repo'', t_description = Some ''Delete a repository'',
                    t_inputSchema = None\<rparr>"

definition rawGetRepo :: rawTool where
  "rawGetRepo = \<lparr>t_name = ''get_repo'', t_description = None, t_inputSchema = None\<rparr>"

definition remoteB :: "string \<Rightarrow> net \<times> (thrown + rawTool list)" where
  "remoteB = (\<lambda>serviceId. (okNet, Inr [rawDeleteRepo, rawGetRepo]))"

definition emptyRegistry :: ToolRegistryState where
  "emptyRegistry = \<lparr>tools = [], aiTools = [], isLoading = False, error = None\<rparr>"

definition storageD :: storage where
  "storageD = [(''mcp-client-github'', githubConfigText),
               (''mcp-client-gitlab'', gitlabConfigText)]"

definition rawSearch :: "string \<Rightarrow> rawTool" where
  "rawSearch descr = \<lparr>t_name = ''search'', t_description = Some descr, t_inputSchema = None\<rparr>"

definition remoteD :: "string \<Rightarrow> net \<times> (thrown + rawTool list)" where
  "remoteD = (\<lambda>serviceId.
     (okNet, Inr [rawSearch (if serviceId = ''github'' then ''Search GitHub'' else ''Search GitLab'')]))"

definition stateD :: ToolRegistryState where
  "stateD = fst (refreshTools parseFixture (\<lambda>u. True) remoteD storageD emptyRegistry initialWorld)"



definition callContent :: "thrown + json list \<times> bool" where
  "callContent = Inr ([JStr ''ok''], False)"


text \<open>
  A tool whose input schema has a property schema \<open>null\<close>, a provider that returns it
  next to the two tools above, and the registry before and after: \<open>stateA\<close> is published
  while nothing is deselected, \<open>stateStale\<close> is the refresh that follows once
  \<open>github:delete_repo\<close> is deselected and the provider returns the broken tool.
\<close>

definition brokenTool :: rawTool where
  "brokenTool =
     \<lparr>t_name = ''list_issues'', t_description = None,
      t_inputSchema = Some \<lparr>schema_type = ''object'', properties = Some [(''state'', JNull)],
                            required = None\<rparr>\<rparr>"

definition storageA :: storage where
  "storageA = [(''mcp-client-github'', githubConfigText)]"

definition remoteA :: "string \<Rightarrow> net \<times> (thrown + rawTool list)" where
  "remoteA = (\<lambda>serviceId. (okNet, Inr [rawDeleteRepo]))"

definition remoteBroken :: "string \<Rightarrow> net \<times> (thrown + rawTool list)" where
  "remoteBroken = (\<lambda>serviceId. (okNet, Inr [rawDeleteRepo, rawGetRepo, brokenTool]))"




section \<open>Strings\<close>

declare showNat.simps [simp del]

lemma startsWith_iff: "startsWith s p \<longleftrightarrow> (\<exists>t. s = p @ t)"
  by (induction s p rule: startsWith.induct) auto

lemma includes_str_iff: "includes_str s w \<longleftrightarrow> (\<exists>p q. s = p @ w @ q)"
proof (induction s)
  case Nil
  then show ?case by auto
next
  case (Cons c cs)
  show ?case
  proof
    assume "includes_str (c # cs) w"
    then consider "startsWith (c # cs) w" | "includes_str cs w" by auto
    then show "\<exists>p q. c # cs = p @ w @ q"
    proof cases
      case 1
      then obtain t where "c # cs = w @ t" by (auto simp: startsWith_iff)
      then have "c # cs = [] @ w @ t" by simp
      then show ?thesis by blast
    next
      case 2
      then obtain p q where "cs = p @ w @ q" using Cons.IH by auto
      then have "c # cs = (c # p) @ w @ q" by simp
      then show ?thesis by blast
    qed
  next
    assume "\<exists>p q. c # cs = p @ w @ q"
    then obtain p q where pq: "c # cs = p @ w @ q" by blast
    show "includes_str (c # cs) w"
    proof (cases p)
      case Nil
      with pq have "startsWith (c # cs) w" by (auto simp: startsWith_iff)
      then show ?thesis by simp
    next
      case (Cons a p')
      with pq have "cs = p' @ w @ q" by simp
      then have "includes_str cs w" using Cons.IH by blast
      then show ?thesis by simp
    qed
  qed
qed

section \<open>Risk classification\<close>

text \<open>
  The registry's classifier is the classifier of the specification: lower-case the name,
  then the high words, then the medium words, as contiguous substrings.
\<close>

lemma determineToolRiskLevel_classify: "determineToolRiskLevel toolName = classify toolName"
  by (simp add: determineToolRiskLevel_def classify_def highWords_def mediumWords_def Let_def)

lemma determineToolRiskLevel_case_insensitive:
  "toLowerCase a = toLowerCase b \<Longrightarrow> determineToolRiskLevel a = determineToolRiskLevel b"
  by (simp add: determineToolRiskLevel_def)

lemma determineToolRiskLevel_delete_repo: "determineToolRiskLevel ''delete_repo'' = High"
  by (simp add: determineToolRiskLevel_def toLowerCase_def lower_char_def)

text \<open>
  C4.  The permission gate has a classifier of its own, \<open>determineRiskLevel\<close>, which does
  not lower-case the name and lacks the words merge, close, approve, post, put, patch,
  comment and assign.  On \<open>Merge_PR\<close> and on \<open>DELETE_repo\<close> the registry's classifier
  answers high, as the specification says, and the gate's answers low.
\<close>

theorem determineRiskLevel_diverges:
  "determineToolRiskLevel ''Merge_PR'' = High \<and> determineRiskLevel ''Merge_PR'' = Low
   \<and> determineToolRiskLevel ''DELETE_repo'' = High \<and> determineRiskLevel ''DELETE_repo'' = Low
   \<and> determineToolRiskLevel ''merge_branch'' = High \<and> determineRiskLevel ''merge_branch'' = Low"
  by (simp add: determineToolRiskLevel_def determineRiskLevel_def toLowerCase_def lower_char_def)

section \<open>Tool-count ceiling\<close>

lemma length_toolsForAI: "length (toolsForAI ts) = length ts"
  by (simp add: toolsForAI_def)

lemma names_toolsForAI: "map tfa_name (toolsForAI ts) = map ai_name ts"
  by (simp add: toolsForAI_def comp_def)

text \<open>
  C6.  With more than \<open>MAX_TOOLS_PER_REQUEST = 30\<close> tools \<open>handleSubmit\<close> only shows the
  "Tool limit exceeded" warning and submits nothing; with at most 30 it submits, and the
  request carries every tool, in order.
\<close>

theorem handleSubmit_tool_ceiling:
  "MAX_TOOLS_PER_REQUEST = 30
   \<and> (length ts > MAX_TOOLS_PER_REQUEST \<longrightarrow>
        (\<exists>msg. handleSubmit ts = ToastWarning msg \<and> includes_str msg ''Tool limit exceeded''))
   \<and> (length ts \<le> MAX_TOOLS_PER_REQUEST \<longrightarrow>
        handleSubmit ts = ChatSubmit (toolsForAI ts)
        \<and> map tfa_name (toolsForAI ts) = map ai_name ts)"
  by (simp add: handleSubmit_def MAX_TOOLS_PER_REQUEST_def length_toolsForAI names_toolsForAI)

theorem handleSubmit_tool_ceiling_witness:
  "(\<exists>msg. handleSubmit (replicate 31 demoTool) = ToastWarning msg
        \<and> includes_str msg ''Tool limit exceeded'')
   \<and> handleSubmit (replicate 30 demoTool) = ChatSubmit (toolsForAI (replicate 30 demoTool))"
proof -
  have over: "length (replicate 31 demoTool) > MAX_TOOLS_PER_REQUEST"
    by (simp add: MAX_TOOLS_PER_REQUEST_def)
  have within: "length (replicate 30 demoTool) \<le> MAX_TOOLS_PER_REQUEST"
    by (simp add: MAX_TOOLS_PER_REQUEST_def)
  from over handleSubmit_tool_ceiling [of "replicate 31 demoTool"]
  have a: "\<exists>msg. handleSubmit (replicate 31 demoTool) = ToastWarning msg
        \<and> includes_str msg ''Tool limit exceeded''"
    by blast
  from within handleSubmit_tool_ceiling [of "replicate 30 demoTool"]
  have b: "handleSubmit (replicate 30 demoTool) = ChatSubmit (toolsForAI (replicate 30 demoTool))"
    by blast
  from a b show ?thesis by blast
qed

lemma handleSubmit_scenario_D:
  "handleSubmit (replicate 31 demoTool) =
     ToastWarning ''Tool limit exceeded: 31 tools available, but only 30 tools can be used per request. Please disable some tools in Available Actions.''"
  by (simp add: handleSubmit_def MAX_TOOLS_PER_REQUEST_def length_toolsForAI showNat.simps)

section \<open>Invocation Coordinator\<close>

lemma callMCPToolWithConfig_success:
  "connectThrows nt = None \<Longrightarrow>
   \<exists>w1. callMCPToolWithConfig cfg toolName args nt (Inr res) w = (Success res, w1)"
  by (simp add: callMCPToolWithConfig_def newClient_def connect_def clientMethod_def emit_def
        Let_def)

lemma summarizeToolResult_failed:
  "providerThrows m \<noteq> None \<or> (\<exists>e. generateText m = Inl e) \<Longrightarrow>
   \<exists>e. summarizeToolResult m = SummaryFailed e"
  by (auto simp: summarizeToolResult_def split: option.splits sum.splits)

text \<open>
  C7.  When the tool is known, its service is configured, the remote call succeeds, and
  the summarization fails (the provider cannot be built, or \<open>generateText\<close> throws),
  \<open>onToolCall\<close> returns \<open>{result}\<close> with the raw content, no summary and no error.
\<close>

theorem summarization_failure_non_fatal:
  assumes "find (\<lambda>t. ai_name t = toolName) ts = Some tool"
      and "serviceConfigs (ai_serviceId tool) = Some cfg"
      and "truthy cfg"
      and "connectThrows nt = None"
      and "providerThrows m \<noteq> None \<or> (\<exists>e. generateText m = Inl e)"
  shows "\<exists>w1. onToolCall ts serviceConfigs toolName args nt (Inr (content, isErr)) m w
                = (ResultOnly content, w1)"
proof -
  obtain w1 where call:
    "callMCPToolWithConfig cfg toolName args nt (Inr (content, isErr)) w
       = (Success (content, isErr), w1)"
    using callMCPToolWithConfig_success [OF assms(4), of cfg toolName args "(content, isErr)" w]
    by blast
  obtain e where "summarizeToolResult m = SummaryFailed e"
    using summarizeToolResult_failed [OF assms(5)] by blast
  with call assms(1-3) have
    "onToolCall ts serviceConfigs toolName args nt (Inr (content, isErr)) m w
       = (ResultOnly content, w1)"
    by (simp add: onToolCall_def)
  then show ?thesis by blast
qed

theorem summarization_failure_non_fatal_witness:
  "\<exists>w1. onToolCall [demoTool] [''github'' \<mapsto> githubConfig] ''get_repo'' (JObj []) okNet
           (Inr ([JStr ''raw''], False)) failingLlm initialWorld
         = (ResultOnly [JStr ''raw''], w1)"
  by (rule summarization_failure_non_fatal [where tool = demoTool and cfg = githubConfig])
     (simp_all add: demoTool_def githubConfig_def okNet_def failingLlm_def)

text \<open>
  C1.  A high-risk tool that was never approved: the permission gate, had it been asked,
  would leave the call pending; \<open>onToolCall\<close> does not ask it, runs the remote call and
  returns its result.
\<close>

theorem onToolCall_runs_without_permission:
  "fst (requestPermission deleteRepoCall (Some ''Delete a repository'') initialPermissionState)
     = None
   \<and> fst (onToolCall [deleteRepoTool] [''github'' \<mapsto> githubConfig] ''delete_repo''
           (JObj [(''repo'', JStr ''acme/site'')]) okNet (Inr ([JStr ''deleted''], False))
           okLlm initialWorld)
     = ResultWithSummary [JStr ''deleted''] ''The repository was deleted.'' [JStr ''deleted'']
   \<and> trace (snd (onToolCall [deleteRepoTool] [''github'' \<mapsto> githubConfig] ''delete_repo''
           (JObj [(''repo'', JStr ''acme/site'')]) okNet (Inr ([JStr ''deleted''], False))
           okLlm initialWorld))
     = [EvConnect 0, EvOperation 0 (CallTool ''delete_repo'' (JObj [(''repo'', JStr ''acme/site'')])),
        EvDisconnect 0, EvSdkClose 0]"
  by (simp add: onToolCall_def deleteRepoTool_def githubConfig_def okNet_def okLlm_def
        initialWorld_def callMCPToolWithConfig_def newClient_def connect_def clientMethod_def
        emit_def finally_disconnect_def disconnect_def summarizeToolResult_def trim_def
        isWhitespace_def requestPermission_def initialPermissionState_def deleteRepoCall_def
        Let_def)

section \<open>Permission Gate\<close>

lemma requestPermission_cached:
  "sessionPermissions st (tc_name tc) = Some b \<Longrightarrow> requestPermission tc d st = (Some b, st)"
  by (simp add: requestPermission_def)

lemma gateStep_keeps_decided:
  assumes "sessionPermissions st n \<noteq> None" and "ev \<noteq> Clear"
  shows "sessionPermissions (gateStep st ev) n \<noteq> None"
  using assms
  by (cases ev)
     (auto simp: requestPermission_def onApprove_def onDeny_def setAutoApprove_def
           split: option.splits if_splits)

lemma gateStep_keeps_approved:
  assumes "sessionPermissions st n = Some True" and "ev \<noteq> Clear"
      and "\<And>tcx. ev = Deny tcx \<Longrightarrow> tc_name tcx \<noteq> n"
  shows "sessionPermissions (gateStep st ev) n = Some True"
  using assms
  by (cases ev)
     (auto simp: requestPermission_def onApprove_def onDeny_def setAutoApprove_def
           split: option.splits if_splits)

lemma gateRun_keeps_decided:
  "sessionPermissions st n \<noteq> None \<Longrightarrow> Clear \<notin> set evs \<Longrightarrow>
   sessionPermissions (gateRun st evs) n \<noteq> None"
  unfolding gateRun_def
proof (induction evs arbitrary: st)
  case Nil
  then show ?case by simp
next
  case (Cons ev evs)
  from Cons.prems have "sessionPermissions (gateStep st ev) n \<noteq> None"
    by (intro gateStep_keeps_decided) auto
  with Cons.prems Cons.IH [of "gateStep st ev"] show ?case by simp
qed

lemma gateRun_keeps_approved:
  "sessionPermissions st n = Some True \<Longrightarrow> Clear \<notin> set evs \<Longrightarrow>
   (\<And>tcx. Deny tcx \<in> set evs \<Longrightarrow> tc_name tcx \<noteq> n) \<Longrightarrow>
   sessionPermissions (gateRun st evs) n = Some True"
  unfolding gateRun_def
proof (induction evs arbitrary: st)
  case Nil
  then show ?case by simp
next
  case (Cons ev evs)
  from Cons.prems have "sessionPermissions (gateStep st ev) n = Some True"
    by (intro gateStep_keeps_approved) auto
  with Cons.prems Cons.IH [of "gateStep st ev"] show ?case by simp
qed

lemma resolved_true_is_cached:
  assumes "st1 = onApprove tc st0 \<or> requestPermission tc d0 st0 = (Some True, st1)"
  shows "sessionPermissions st1 (tc_name tc) = Some True"
  using assms
  by (auto simp: onApprove_def requestPermission_def split: option.splits if_splits)

text \<open>
  C9.  Once a tool was approved (the user approved a pending request, or a request for it
  resolved true), then after any run of gate events without \<open>clearSessionPermissions\<close>
  a request for the same tool name resolves at once and leaves the state, and with it the
  list of pending prompts, unchanged.  It resolves true unless a prompt for the same tool
  that was already pending has been denied in between.
\<close>

theorem session_permission_cached:
  assumes "st1 = onApprove tc st0 \<or> requestPermission tc d0 st0 = (Some True, st1)"
      and "Clear \<notin> set evs"
      and "tc_name tc' = tc_name tc"
  shows "\<exists>b. requestPermission tc' d (gateRun st1 evs) = (Some b, gateRun st1 evs)
             \<and> ((\<forall>tcx. Deny tcx \<in> set evs \<longrightarrow> tc_name tcx \<noteq> tc_name tc) \<longrightarrow> b = True)"
proof -
  have cached: "sessionPermissions st1 (tc_name tc) = Some True"
    using resolved_true_is_cached [OF assms(1)] .
  then have "sessionPermissions (gateRun st1 evs) (tc_name tc) \<noteq> None"
    using gateRun_keeps_decided [of st1 "tc_name tc" evs] assms(2) by simp
  then obtain b where b: "sessionPermissions (gateRun st1 evs) (tc_name tc') = Some b"
    using assms(3) by auto
  have "(\<forall>tcx. Deny tcx \<in> set evs \<longrightarrow> tc_name tcx \<noteq> tc_name tc) \<longrightarrow> b = True"
  proof
    assume "\<forall>tcx. Deny tcx \<in> set evs \<longrightarrow> tc_name tcx \<noteq> tc_name tc"
    then have "sessionPermissions (gateRun st1 evs) (tc_name tc) = Some True"
      using gateRun_keeps_approved [OF cached assms(2)] by blast
    with b assms(3) show "b = True" by simp
  qed
  with requestPermission_cached [OF b] show ?thesis by blast
qed

theorem session_permission_cached_witness:
  "requestPermission deleteRepoCall2 None (gateRun (onApprove deleteRepoCall pendingDelete) sessionEvents)
     = (Some True, gateRun (onApprove deleteRepoCall pendingDelete) sessionEvents)"
proof -
  have a: "Clear \<notin> set sessionEvents" by (simp add: sessionEvents_def)
  have n: "tc_name deleteRepoCall2 = tc_name deleteRepoCall"
    by (simp add: deleteRepoCall2_def deleteRepoCall_def)
  have d: "\<forall>tcx. Deny tcx \<in> set sessionEvents \<longrightarrow> tc_name tcx \<noteq> tc_name deleteRepoCall"
    by (simp add: sessionEvents_def getRepoCall_def deleteRepoCall_def)
  from session_permission_cached [of "onApprove deleteRepoCall pendingDelete" deleteRepoCall
         pendingDelete None sessionEvents deleteRepoCall2 None, OF _ a n] d
  show ?thesis by auto
qed

lemma pending_then_cached:
  "fst (requestPermission deleteRepoCall None initialPermissionState) = None
   \<and> length (pendingRequests pendingDelete) = 1
   \<and> pendingRequests (gateRun (onApprove deleteRepoCall pendingDelete) sessionEvents) = []"
  by (simp add: pendingDelete_def requestPermission_def initialPermissionState_def
        deleteRepoCall_def onApprove_def gateRun_def sessionEvents_def getRepoCall_def
        onDeny_def setAutoApprove_def)

text \<open>Two prompts for one tool, answered differently: the later answer is the cached one.\<close>

lemma later_denial_overrides:
  "fst (requestPermission deleteRepoCall None
          (gateRun initialPermissionState
             [Request deleteRepoCall None, Request deleteRepoCall2 None,
              Approve deleteRepoCall, Deny deleteRepoCall2])) = Some False"
  by (simp add: requestPermission_def initialPermissionState_def
        deleteRepoCall_def deleteRepoCall2_def onApprove_def gateRun_def
        onDeny_def)

section \<open>Config Store: the tool-selection key\<close>

lemma replace_first_prefix:
  "startsWith s p \<Longrightarrow> s \<noteq> [] \<Longrightarrow> replace_first s p r = r @ drop (length p) s"
  by (cases s) auto

lemma selection_key_id:
  "replace_first TOOL_SELECTION_KEY (STORAGE_PREFIX @ ''-'') [] = ''tool-selection''
   \<and> startsWith TOOL_SELECTION_KEY STORAGE_PREFIX \<and> TOOL_SELECTION_KEY \<noteq> []
   \<and> getStorageKey ''tool-selection'' = TOOL_SELECTION_KEY"
  by (simp add: TOOL_SELECTION_KEY_def STORAGE_PREFIX_def getStorageKey_def)

lemma getServiceIds_loop_eq:
  "getServiceIds_loop keys acc
     = acc @ map (\<lambda>key. replace_first key (STORAGE_PREFIX @ ''-'') [])
               (filter (\<lambda>key. key \<noteq> [] \<and> startsWith key STORAGE_PREFIX) keys)"
  by (induction keys arbitrary: acc) auto

lemma getAllServiceConfigs_loop_hit:
  assumes "key \<in> set keys" and "key \<noteq> []" and "startsWith key STORAGE_PREFIX"
      and "replace_first key (STORAGE_PREFIX @ ''-'') [] = sid"
      and "truthy (loadServiceConfig parse st sid)"
  shows "getAllServiceConfigs_loop parse st keys configs sid = Some (loadServiceConfig parse st sid)"
  using assms(1)
proof (induction keys arbitrary: configs)
  case Nil
  then show ?case by simp
next
  case (Cons k keys)
  have keep: "getAllServiceConfigs_loop parse st keys cs sid = Some (loadServiceConfig parse st sid)"
    if "cs sid = Some (loadServiceConfig parse st sid)" for cs
    using that
  proof (induction keys arbitrary: cs)
    case Nil
    then show ?case by simp
  next
    case (Cons k' keys')
    then show ?case by (auto simp: Let_def)
  qed
  show ?case
  proof (cases "k = key")
    case True
    with assms(2-5) show ?thesis
      by (simp add: Let_def keep)
  next
    case False
    with Cons.prems have "key \<in> set keys" by simp
    with Cons.IH show ?thesis by (simp add: Let_def)
  qed
qed

lemma loadAll_serviceId_not_selection:
  assumes "startsWith key (STORAGE_PREFIX @ ''-'')" and "\<not> includes_str key ''-tool-selection''"
  shows "replace_first key (STORAGE_PREFIX @ ''-'') [] \<noteq> ''tool-selection''"
proof
  assume eq: "replace_first key (STORAGE_PREFIX @ ''-'') [] = ''tool-selection''"
  from assms(1) obtain t where key: "key = (STORAGE_PREFIX @ ''-'') @ t"
    by (auto simp: startsWith_iff)
  then have "key \<noteq> []" by (simp add: STORAGE_PREFIX_def)
  with assms(1) have "replace_first key (STORAGE_PREFIX @ ''-'') [] = drop (length (STORAGE_PREFIX @ ''-'')) key"
    using replace_first_prefix [of key "STORAGE_PREFIX @ ''-''" "[]"] by simp
  with key eq have "t = ''tool-selection''" by simp
  with key have "key = ''mcp-client-tool-selection''" by (simp add: STORAGE_PREFIX_def)
  then have "includes_str key ''-tool-selection''" by simp
  with assms(2) show False by simp
qed

lemma loadAllServiceConfigs_loop_no_selection:
  "configs ''tool-selection'' = None \<Longrightarrow>
   loadAllServiceConfigs_loop parse st keys configs = Some result \<Longrightarrow>
   result ''tool-selection'' = None"
proof (induction keys arbitrary: configs)
  case Nil
  then show ?case by simp
next
  case (Cons key keys)
  show ?case
  proof (cases "key \<noteq> [] \<and> startsWith key (STORAGE_PREFIX @ ''-'')
                 \<and> \<not> includes_str key ''-tool-selection''")
    case False
    with Cons show ?thesis by auto
  next
    case True
    note guard = True
    then have ne: "replace_first key (STORAGE_PREFIX @ ''-'') [] \<noteq> ''tool-selection''"
      using loadAll_serviceId_not_selection by blast
    let ?sid = "replace_first key (STORAGE_PREFIX @ ''-'') []"
    show ?thesis
    proof (cases "getItem st key")
      case None
      with guard Cons.prems have "loadAllServiceConfigs_loop parse st keys configs = Some result"
        by (simp add: Let_def)
      with Cons.IH Cons.prems(1) show ?thesis by blast
    next
      case (Some stored)
      show ?thesis
      proof (cases "stored = []")
        case True
        with \<open>getItem st key = Some stored\<close> guard Cons.prems
        have "loadAllServiceConfigs_loop parse st keys configs = Some result"
          by (simp add: Let_def)
        with Cons.IH Cons.prems(1) show ?thesis by blast
      next
        case False
        show ?thesis
        proof (cases "parse stored")
          case None
          with False \<open>getItem st key = Some stored\<close> guard Cons.prems(2) show ?thesis
            by (simp add: Let_def)
        next
          case (Some v)
          with False \<open>getItem st key = Some stored\<close> guard Cons.prems(2)
          have run: "loadAllServiceConfigs_loop parse st keys (configs(?sid \<mapsto> v)) = Some result"
            by (simp add: Let_def)
          have "(configs(?sid \<mapsto> v)) ''tool-selection'' = None"
            using ne Cons.prems(1) by simp
          with Cons.IH run show ?thesis by blast
        qed
      qed
    qed
  qed
qed

lemma loadAllServiceConfigs_no_selection:
  "loadAllServiceConfigs parse st ''tool-selection'' = None"
proof (cases "loadAllServiceConfigs_loop parse st (map fst st) Map.empty")
  case None
  then show ?thesis by (simp add: loadAllServiceConfigs_def)
next
  case (Some result)
  then have "result ''tool-selection'' = None"
    using loadAllServiceConfigs_loop_no_selection [of Map.empty parse st "map fst st" result]
    by simp
  with Some show ?thesis by (simp add: loadAllServiceConfigs_def)
qed

text \<open>
  C10.  When a tool selection has been saved (the key \<open>mcp-client-tool-selection\<close>
  holds the JSON text of an object whose keys are tool ids \<open>serviceId:toolName\<close>):
  \<open>getServiceIds\<close> lists the id \<open>tool-selection\<close>; \<open>getAllServiceConfigs\<close> has an
  entry for it, the selection object itself; \<open>loadAllServiceConfigs\<close> has none, so the
  two functions differ; and the registry does not skip it: its config is truthy, and
  listing its tools fails with "URL is required" before any connection is made.
\<close>

theorem tool_selection_listed_as_service:
  assumes "getItem st TOOL_SELECTION_KEY = Some stored"
      and "stored \<noteq> []"
      and "parse stored = Some (JObj selection)"
      and "\<forall>toolId \<in> set (map fst selection). CHR '':'' \<in> set toolId"
  shows "''tool-selection'' \<in> set (getServiceIds st)
       \<and> getAllServiceConfigs parse st ''tool-selection'' = Some (JObj selection)
       \<and> loadAllServiceConfigs parse st ''tool-selection'' = None
       \<and> getAllServiceConfigs parse st \<noteq> loadAllServiceConfigs parse st
       \<and> truthy (loadServiceConfig parse st ''tool-selection'')
       \<and> hooks_listMCPTools parse validURL st ''tool-selection'' nt sdk w
           = (Failure (Message ''URL is required for HTTP transport''), w)"
proof -
  from assms(1) have "(TOOL_SELECTION_KEY, stored) \<in> set st"
    by (simp add: getItem_def map_of_SomeD)
  then have key_in: "TOOL_SELECTION_KEY \<in> set (map fst st)"
    by force
  have cfg: "loadServiceConfig parse st ''tool-selection'' = JObj selection"
    using assms(1-3) selection_key_id by (simp add: loadServiceConfig_def)
  have listed: "''tool-selection'' \<in> set (getServiceIds st)"
    using key_in selection_key_id
    by (force simp: getServiceIds_def getServiceIds_loop_eq)
  have all: "getAllServiceConfigs parse st ''tool-selection'' = Some (JObj selection)"
    using getAllServiceConfigs_loop_hit [of TOOL_SELECTION_KEY "map fst st" "''tool-selection''"
            parse st Map.empty] key_in selection_key_id cfg
    by (simp add: getAllServiceConfigs_def)
  have none: "loadAllServiceConfigs parse st ''tool-selection'' = None"
    by (rule loadAllServiceConfigs_no_selection)
  from all none have differ: "getAllServiceConfigs parse st \<noteq> loadAllServiceConfigs parse st"
    by (metis option.distinct(1))
  have "CHR '':'' \<notin> set ''url''" by simp
  with assms(4) have "''url'' \<notin> set (map fst selection)"
    by blast
  then have nourl: "map_of selection ''url'' = None"
    by (simp add: map_of_eq_None_iff)
  have list: "hooks_listMCPTools parse validURL st ''tool-selection'' nt sdk w
           = (Failure (Message ''URL is required for HTTP transport''), w)"
    using cfg nourl by (simp add: hooks_listMCPTools_def listMCPTools_def urlPresent_def)
  from listed all none differ cfg list show ?thesis by simp
qed

theorem tool_selection_listed_as_service_witness:
  "''tool-selection'' \<in> set (getServiceIds storageB)
   \<and> getAllServiceConfigs parseFixture storageB ''tool-selection'' = Some selectionJson
   \<and> loadAllServiceConfigs parseFixture storageB ''tool-selection'' = None
   \<and> hooks_listMCPTools parseFixture (\<lambda>u. True) storageB ''tool-selection'' okNet
         (Inr [rawGetRepo]) initialWorld
       = (Failure (Message ''URL is required for HTTP transport''), initialWorld)"
proof -
  have a: "getItem storageB TOOL_SELECTION_KEY = Some selectionText"
    by (simp add: getItem_def storageB_def TOOL_SELECTION_KEY_def STORAGE_PREFIX_def)
  have b: "selectionText \<noteq> []" by (simp add: selectionText_def)
  have c: "parseFixture selectionText = Some (JObj [(''github:delete_repo'', JBool False)])"
    by (simp add: parseFixture_def selectionText_def githubConfigText_def gitlabConfigText_def
          selectionJson_def)
  have d: "\<forall>toolId \<in> set (map fst [(''github:delete_repo'', JBool False)]). CHR '':'' \<in> set toolId"
    by simp
  from tool_selection_listed_as_service
         [where parse = parseFixture and st = storageB and stored = selectionText
            and selection = "[(''github:delete_repo'', JBool False)]"
            and validURL = "\<lambda>u. True" and nt = okNet and sdk = "Inr [rawGetRepo]"
            and w = initialWorld, OF a b c d]
  show ?thesis by (simp add: selectionJson_def)
qed

section \<open>Records as association lists\<close>

text \<open>Assignment to a key, and a loop of assignments.\<close>

lemma map_of_assign: "map_of (assign kvs k v) = (map_of kvs)(k \<mapsto> v)"
  by (induction kvs) (auto simp: fun_eq_iff)

lemma keys_assign: "set (map fst (assign kvs k v)) = insert k (set (map fst kvs))"
proof (induction kvs)
  case Nil
  then show ?case by simp
next
  case (Cons kv kvs)
  obtain k' v' where kv: "kv = (k', v')" by (cases kv)
  show ?case
  proof (cases "k' = k")
    case True
    with kv show ?thesis by simp
  next
    case False
    with kv Cons.IH show ?thesis by (simp add: insert_commute)
  qed
qed

lemma distinct_assign: "distinct (map fst kvs) \<Longrightarrow> distinct (map fst (assign kvs k v))"
proof (induction kvs)
  case Nil
  then show ?case by simp
next
  case (Cons kv kvs)
  obtain k' v' where kv: "kv = (k', v')" by (cases kv)
  show ?case
  proof (cases "k' = k")
    case True
    with Cons.prems kv show ?thesis by simp
  next
    case False
    from Cons.prems kv have "k' \<notin> set (map fst kvs)" and "distinct (map fst kvs)" by simp_all
    with False Cons.IH kv show ?thesis
      using keys_assign [of kvs k v] by simp
  qed
qed


lemma foldl_assign_map_of:
  "map_of (foldl (\<lambda>obj (k, v). assign obj k v) acc es) = map_of acc ++ map_of (rev es)"
  by (induction es arbitrary: acc) (auto simp: map_of_assign fun_eq_iff map_add_def split: option.splits)

lemma foldl_assign_distinct:
  "distinct (map fst acc) \<Longrightarrow> distinct (map fst (foldl (\<lambda>obj (k, v). assign obj k v) acc es))"
  by (induction es arbitrary: acc) (auto simp: distinct_assign)

lemma map_of_keyed:
  "map_of (map (\<lambda>t. (key t, val t)) xs) k = map_option val (find (\<lambda>t. key t = k) xs)"
  by (induction xs) auto

section \<open>Schema Translator\<close>



text \<open>A property schema that is \<open>null\<close> makes either loop throw, whatever its key.\<close>

lemma zodFields_loop_null:
  "JNull \<in> snd ` set entries \<Longrightarrow> zodFields_loop req entries acc = Inl TypeError"
proof (induction entries arbitrary: acc)
  case Nil
  then show ?case by simp
next
  case (Cons e entries)
  obtain k p where e: "e = (k, p)" by (cases e)
  show ?case
  proof (cases "p = JNull")
    case True
    with e show ?thesis by simp
  next
    case False
    with Cons.prems e have "JNull \<in> snd ` set entries" by auto
    with Cons.IH e False show ?thesis by simp
  qed
qed














text \<open>A property schema that is \<open>null\<close> makes the translation throw.\<close>

lemma null_property_throws:
  assumes "schema_type sch = ''object''" and "properties sch = Some ps"
      and "JNull \<in> snd ` set ps"
  shows "convertToZodSchema (Some sch) = Inl TypeError"
  using assms zodFields_loop_null [of ps]
  by (simp add: convertToZodSchema_def Let_def)

section \<open>Tool Registry: enumeration and publishing\<close>












section \<open>Tool Registry: selection\<close>

lemmas fixture_defs =
  getServiceIds_def storageA_def storageB_def storageD_def STORAGE_PREFIX_def
  loadServiceConfig_def getItem_def getStorageKey_def loadToolSelection_def
  TOOL_SELECTION_KEY_def parseFixture_def githubConfigText_def gitlabConfigText_def
  selectionText_def githubConfig_def gitlabConfig_def selectionJson_def
  remoteA_def remoteB_def remoteD_def remoteBroken_def okNet_def initialWorld_def
  rawDeleteRepo_def rawGetRepo_def rawSearch_def brokenTool_def emptyRegistry_def

lemmas refresh_defs =
  refreshTools_def hooks_listMCPTools_def listMCPTools_def urlPresent_def trim_def
  isWhitespace_def newClient_def connect_def clientMethod_def emit_def finally_disconnect_def
  disconnect_def selectedIn_def toolIdOf_def convertToAISDKTool_def convertToZodSchema_def
  convertToJsonSchema_def Let_def















section \<open>Tool Registry: one name from two services\<close>




lemma stateD_eval:
  "map (\<lambda>a. (ai_name a, ai_serviceId a, ai_description a)) (aiTools stateD)
     = [(''search'', ''github'', ''Search GitHub''), (''search'', ''gitlab'', ''Search GitLab'')]
   \<and> error stateD = None"
  by (simp add: stateD_def fixture_defs refresh_defs)


text \<open>
  The table of the chat endpoint has one entry per name, the last of that name in the
  list it is built from; the lookups of the client find the first.
\<close>

lemma route_aiTools_last:
  "distinct (map fst (route_aiTools toZod (toolsForAI ts)))
   \<and> map_of (route_aiTools toZod (toolsForAI ts)) nm
       = map_option (\<lambda>t. (ai_description t, toZod (ai_jsonSchema t)))
           (find (\<lambda>t. ai_name t = nm) (rev ts))"
proof -
  let ?entry = "\<lambda>t. (ai_name t, ai_description t, toZod (ai_jsonSchema t))"
  have entries: "map (\<lambda>tool. (tfa_name tool, tfa_description tool, toZod (tfa_parameters tool)))
                   (toolsForAI ts) = map ?entry ts"
    by (simp add: toolsForAI_def comp_def)
  have "map_of (route_aiTools toZod (toolsForAI ts)) nm = map_of (map ?entry (rev ts)) nm"
    by (simp add: route_aiTools_def fromEntries_def entries foldl_assign_map_of rev_map)
  also have "\<dots> = map_option (\<lambda>t. (ai_description t, toZod (ai_jsonSchema t)))
                      (find (\<lambda>t. ai_name t = nm) (rev ts))"
    by (rule map_of_keyed [where key = ai_name])
  finally have last: "map_of (route_aiTools toZod (toolsForAI ts)) nm
       = map_option (\<lambda>t. (ai_description t, toZod (ai_jsonSchema t)))
           (find (\<lambda>t. ai_name t = nm) (rev ts))" .
  have "distinct (map fst (route_aiTools toZod (toolsForAI ts)))"
    by (simp add: route_aiTools_def fromEntries_def foldl_assign_distinct)
  with last show ?thesis by simp
qed







text \<open>
  On the two services above, the model is shown the second service's \<open>search\<close> and a
  call of \<open>search\<close> is resolved to the first service's.
\<close>

lemma duplicate_names_mismatch:
  "map_option fst (map_of (route_aiTools toZod (toolsForAI (aiTools stateD))) ''search'')
     = Some ''Search GitLab''
   \<and> map_option ai_serviceId (getToolByName stateD ''search'') = Some ''github''"
proof -
  obtain a b where ab: "aiTools stateD = [a, b]"
    using stateD_eval by (cases "aiTools stateD") auto
  with stateD_eval have
    "ai_name a = ''search''" "ai_name b = ''search''"
    "ai_serviceId a = ''github''" "ai_description b = ''Search GitLab''"
    by simp_all
  with ab show ?thesis
    using route_aiTools_last [of toZod "aiTools stateD" "''search''"]
    by (simp add: getToolByName_def)
qed

section \<open>Remote Capability Client: connection lifecycle\<close>

lemmas client_defs =
  newClient_def connect_def clientMethod_def emit_def finally_disconnect_def disconnect_def
  freshRoundTrip_def pooledOperation_def isFailure_def Let_def

text \<open>The actions that are given a config.\<close>

lemma callMCPToolWithConfig_round_trip:
  "freshRoundTrip (CallTool toolName args) nt w
     (snd (callMCPToolWithConfig cfg toolName args nt sdk w))"
  by (simp add: callMCPToolWithConfig_def client_defs split: option.splits sum.splits)







text \<open>The actions that use the pool.\<close>

lemma pooled_operations:
  assumes "clientPool w serviceId = Some c" and "isConnected w c"
  shows "pooledOperation (CallTool toolName args) c w
           (snd (callMCPTool serviceId toolName args sdkCall w))
       \<and> pooledOperation ListTools c w (snd (listMCPTools validURL serviceId None nt sdkTools w))
       \<and> pooledOperation ListPrompts c w (snd (listMCPPrompts serviceId None nt sdkPrompts w))
       \<and> pooledOperation ListResources c w
           (snd (listMCPResources serviceId None nt sdkResources w))"
  using assms
  by (simp add: callMCPTool_def listMCPTools_def listMCPPrompts_def listMCPResources_def
        client_defs split: option.splits sum.splits)






text \<open>The trace of one stateless tool call.\<close>

lemma stateless_call_trace:
  "trace (snd (callMCPToolWithConfig githubConfig ''get_repo'' (JObj []) okNet callContent
                 initialWorld))
     = [EvConnect 0, EvOperation 0 (CallTool ''get_repo'' (JObj [])), EvDisconnect 0, EvSdkClose 0]"
  using callMCPToolWithConfig_round_trip
          [of "''get_repo''" "JObj []" okNet initialWorld githubConfig callContent]
  by (simp add: freshRoundTrip_def okNet_def initialWorld_def)

text \<open>A run of pooled tool calls: every one of them is an operation of the pooled client.\<close>

lemma pooled_calls_reuse:
  assumes "clientPool w serviceId = Some c" and "isConnected w c"
  shows "trace (foldl (\<lambda>v (toolName, args). snd (callMCPTool serviceId toolName args sdk v))
                  w calls)
           = trace w @ map (\<lambda>(toolName, args). EvOperation c (CallTool toolName args)) calls"
  using assms
proof (induction calls arbitrary: w)
  case Nil
  then show ?case by simp
next
  case (Cons call calls)
  obtain toolName args where call: "call = (toolName, args)" by (cases call)
  let ?w = "snd (callMCPTool serviceId toolName args sdk w)"
  from pooled_operations [OF Cons.prems, where toolName = toolName and args = args
         and sdkCall = sdk]
  have step: "pooledOperation (CallTool toolName args) c w ?w" by (rule conjunct1)
  then have "clientPool ?w serviceId = Some c" and "isConnected ?w c"
    and "trace ?w = trace w @ [EvOperation c (CallTool toolName args)]"
    using Cons.prems by (simp_all add: pooledOperation_def)
  with Cons.IH [of ?w] call show ?case by simp
qed


end
